theory Spec2Isabelle
  imports Main "HOL-Library.AList"
begin

section \<open>AckerJS: string formatting helpers (src/format/index.ts)\<close>

text \<open>
  A JavaScript string is modelled as a \<open>string\<close> (a list of \<open>char\<close>), one \<open>char\<close>
  per code unit, for the code units below 256 (ASCII and Latin-1). The character classes
  of the regular expressions and the case mapping are written out on that range.
\<close>

subsection \<open>Character classes\<close>

definition is_upper :: "char \<Rightarrow> bool" where
  "is_upper c \<longleftrightarrow> 65 \<le> (of_char c :: nat) \<and> (of_char c :: nat) \<le> 90"

definition is_lower :: "char \<Rightarrow> bool" where
  "is_lower c \<longleftrightarrow> 97 \<le> (of_char c :: nat) \<and> (of_char c :: nat) \<le> 122"

definition is_digit :: "char \<Rightarrow> bool" where
  "is_digit c \<longleftrightarrow> 48 \<le> (of_char c :: nat) \<and> (of_char c :: nat) \<le> 57"

text \<open>The class \<^verbatim>\<open>\w\<close>: letters, digits and the underscore.\<close>

definition is_word :: "char \<Rightarrow> bool" where
  "is_word c \<longleftrightarrow> is_upper c \<or> is_lower c \<or> is_digit c \<or> c = CHR ''_''"

text \<open>The class \<^verbatim>\<open>\s\<close> (also what \<^verbatim>\<open>trim\<close> strips): tab, line feed, vertical tab,
  form feed, carriage return, space and the no-break space U+00A0.\<close>

definition is_space :: "char \<Rightarrow> bool" where
  "is_space c \<longleftrightarrow>
     (9 \<le> (of_char c :: nat) \<and> (of_char c :: nat) \<le> 13) \<or> c = CHR '' '' \<or> c = CHR 0xA0"

subsection \<open>slugify\<close>

text \<open>
  The letters with a lower-case form: \<open>A\<close> to \<open>Z\<close>, and in Latin-1 U+00C0 to U+00DE
  without the multiplication sign U+00D7; the lower-case form is 32 code units above.
\<close>

definition has_lower_case :: "char \<Rightarrow> bool" where
  "has_lower_case c \<longleftrightarrow>
     is_upper c \<or>
     (192 \<le> (of_char c :: nat) \<and> (of_char c :: nat) \<le> 222 \<and> (of_char c :: nat) \<noteq> 215)"

definition toLowerCase :: "string \<Rightarrow> string" where
  "toLowerCase s =
     map (\<lambda>c. if has_lower_case c then char_of (of_char c + (32::nat)) else c) s"

definition trim :: "string \<Rightarrow> string" where
  "trim s = rev (dropWhile is_space (rev (dropWhile is_space s)))"

text \<open>\<^verbatim>\<open>.replace(/[^\w\s-]/g, '')\<close>: every character outside the class is deleted.\<close>

definition remove_non_slug_chars :: "string \<Rightarrow> string" where
  "remove_non_slug_chars s = filter (\<lambda>c. is_word c \<or> is_space c \<or> c = CHR ''-'') s"

definition is_separator :: "char \<Rightarrow> bool" where
  "is_separator c \<longleftrightarrow> is_space c \<or> c = CHR ''_'' \<or> c = CHR ''-''"

text \<open>\<^verbatim>\<open>.replace(/[\s_-]+/g, '-')\<close>: every maximal run of separators becomes one hyphen.\<close>

function collapse_separators :: "string \<Rightarrow> string" where
  "collapse_separators [] = []"
| "collapse_separators (c # cs) =
     (if is_separator c then CHR ''-'' # collapse_separators (dropWhile is_separator cs)
      else c # collapse_separators cs)"
  by pat_completeness auto
termination
  by (relation "measure length") (auto simp: length_dropWhile_le less_Suc_eq_le)

text \<open>\<^verbatim>\<open>.replace(/^-+|-+$/g, '')\<close>: the leading and the trailing run of hyphens go.\<close>

definition strip_hyphens :: "string \<Rightarrow> string" where
  "strip_hyphens s =
     rev (dropWhile (\<lambda>c. c = CHR ''-'') (rev (dropWhile (\<lambda>c. c = CHR ''-'') s)))"

definition slugify :: "string \<Rightarrow> string" where
  "slugify str =
     strip_hyphens (collapse_separators (remove_non_slug_chars (trim (toLowerCase str))))"

subsection \<open>escapeHTML and unescapeHTML\<close>

definition htmlEscapes :: "char \<Rightarrow> string" where
  "htmlEscapes c =
     (if c = CHR ''&'' then ''&amp;''
      else if c = CHR ''<'' then ''&lt;''
      else if c = CHR ''>'' then ''&gt;''
      else if c = CHR 0x22 then ''&quot;''
      else if c = CHR 0x27 then ''&#39;''
      else [c])"

definition escapeHTML :: "string \<Rightarrow> string" where
  "escapeHTML str = concat (map htmlEscapes str)"

text \<open>
  \<^verbatim>\<open>str.replace(/&(?:amp|lt|gt|quot|#39);/g, entity => htmlUnescapes[entity])\<close>: the scan
  goes left to right; at an ampersand the alternatives are tried in the order written, a
  match is replaced and the scan resumes after it; any other character is kept.
\<close>

function unescapeHTML :: "string \<Rightarrow> string" where
  "unescapeHTML [] = []"
| "unescapeHTML (c # cs) =
     (if c = CHR ''&'' \<and> take 4 cs = ''amp;'' then CHR ''&'' # unescapeHTML (drop 4 cs)
      else if c = CHR ''&'' \<and> take 3 cs = ''lt;'' then CHR ''<'' # unescapeHTML (drop 3 cs)
      else if c = CHR ''&'' \<and> take 3 cs = ''gt;'' then CHR ''>'' # unescapeHTML (drop 3 cs)
      else if c = CHR ''&'' \<and> take 5 cs = ''quot;'' then CHR 0x22 # unescapeHTML (drop 5 cs)
      else if c = CHR ''&'' \<and> take 4 cs = ''#39;'' then CHR 0x27 # unescapeHTML (drop 4 cs)
      else c # unescapeHTML cs)"
  by pat_completeness auto
termination
  by (relation "measure length") auto

subsection \<open>Numbers as text\<close>

definition digit_char :: "nat \<Rightarrow> char" where
  "digit_char d = ''0123456789'' ! d"

text \<open>The decimal digits of a natural number, most significant first.\<close>

function nat_digits :: "nat \<Rightarrow> string" where
  "nat_digits n = (if n < 10 then [digit_char n] else nat_digits (n div 10) @ [digit_char (n mod 10)])"
  by pat_completeness auto
termination
  by (relation "measure id") auto

declare nat_digits.simps [simp del]

definition int_digits :: "int \<Rightarrow> string" where
  "int_digits i = (if i < 0 then CHR ''-'' # nat_digits (nat (- i)) else nat_digits (nat i))"

subsection \<open>formatBytes\<close>

text \<open>
  \<open>bytes\<close> is a count of bytes, a natural number; the quotient \<open>bytes / k ^ i\<close> is kept as
  the fraction \<open>num / den\<close> and the arithmetic is exact. The code computes in doubles,
  which round: the two agree where the logarithms and the quotient are exact, as at the
  value used below (\<open>1048576 / 1024 ^ 2\<close> is exactly \<open>1\<close>), and can differ for a count
  just below a power of \<open>k\<close> (the quotient of the rounded logarithms reaches the next
  integer) or for a count that is negative or not an integer, which this model leaves out.

  \<^verbatim>\<open>Math.floor(Math.log(bytes) / Math.log(k))\<close>: the number of times \<open>bytes\<close> can be
  divided by \<open>k\<close> before it drops below \<open>k\<close>.
\<close>

function floor_log :: "nat \<Rightarrow> nat \<Rightarrow> nat" where
  "floor_log k n = (if k < 2 \<or> n < k then 0 else Suc (floor_log k (n div k)))"
  by pat_completeness auto
termination
  by (relation "measure snd") auto

declare floor_log.simps [simp del]

text \<open>
  \<^verbatim>\<open>(num / den).toFixed(d)\<close>: the integer \<open>n\<close> nearest to \<open>num / den * 10 ^ d\<close> (the larger
  one on a tie), written with a decimal point before its last \<open>d\<close> digits and padded with
  zeros on the left up to \<open>d + 1\<close> digits.
\<close>

definition toFixed :: "nat \<Rightarrow> nat \<Rightarrow> nat \<Rightarrow> string" where
  "toFixed num den d =
     (let n = (2 * num * 10 ^ d + den) div (2 * den);
          ds = nat_digits n;
          padded = replicate (Suc d - length ds) (CHR ''0'') @ ds
      in if d = 0 then padded
         else take (length padded - d) padded @ ''.'' @ drop (length padded - d) padded)"

text \<open>
  \<^verbatim>\<open>`${parseFloat(s)}`\<close> for a decimal numeral \<open>s\<close> as \<open>toFixed\<close> writes it: the number is
  printed in its shortest form, so the zeros that end the fraction are dropped, and the
  point with them when no fraction digit is left. This is what the code prints for a
  numeral of up to 15 significant digits; a longer one is rounded to the nearest double
  first, which this model leaves out.
\<close>

definition parseFloat_toString :: "string \<Rightarrow> string" where
  "parseFloat_toString s =
     (if CHR ''.'' \<in> set s
      then (let t = rev (dropWhile (\<lambda>c. c = CHR ''0'') (rev s))
            in if last t = CHR ''.'' then butlast t else t)
      else s)"

definition sizes :: "string list" where
  "sizes = [''Bytes'', ''KB'', ''MB'', ''GB'', ''TB'', ''PB'']"

datatype platform_error = PlatformError (error_name: string) (error_message: string)

text \<open>
  \<open>decimals\<close> is the optional second argument (\<open>None\<close>: the default \<open>2\<close>).
  \<^verbatim>\<open>toFixed\<close> raises a RangeError above 100 digits; an index past the end of \<open>sizes\<close>
  reads \<^verbatim>\<open>undefined\<close>, which the template literal prints as such.
\<close>

definition formatBytes :: "nat \<Rightarrow> nat option \<Rightarrow> platform_error + string" where
  "formatBytes bytes decimals_opt =
     (let decimals = (case decimals_opt of None \<Rightarrow> 2 | Some d \<Rightarrow> d) in
      if bytes = 0 then Inr ''0 Bytes''
      else
        let k = 1024;
            i = floor_log k bytes
        in if decimals > 100
           then Inl (PlatformError ''RangeError'' ''toFixed() digits argument must be between 0 and 100'')
           else Inr (parseFloat_toString (toFixed bytes (k ^ i) decimals) @ '' '' @
                     (if i < length sizes then sizes ! i else ''undefined'')))"

section \<open>JavaScript values, exceptions and the console\<close>

text \<open>
  The values that cross the library's interfaces (parsed JSON bodies, query parameter
  objects, reasons of rejected promises). Numbers are the integers of magnitude below
  \<open>10 ^ 21\<close>, which print in plain decimal; fractions and larger numbers are left out. An
  object is its list of own properties in insertion order.
\<close>

datatype jsval =
    JUndefined
  | JNull
  | JBool bool
  | JNum int
  | JStr string
  | JArr "jsval list"
  | JObj "(string \<times> jsval) list"

text \<open>\<^verbatim>\<open>parts.join(sep)\<close>\<close>

fun join :: "string \<Rightarrow> string list \<Rightarrow> string" where
  "join sep [] = []"
| "join sep [s] = s"
| "join sep (s # t # ss) = s @ sep @ join sep (t # ss)"

text \<open>
  \<^verbatim>\<open>String(v)\<close>, the conversion a template literal and the \<^verbatim>\<open>Error\<close> constructor
  apply as well. An array prints its elements in order, joined by commas, with \<^verbatim>\<open>null\<close>
  and \<^verbatim>\<open>undefined\<close> elements left empty. A plain object prints as \<open>[object Object]\<close>
  through the inherited \<^verbatim>\<open>toString\<close>; an object with an own property \<open>toString\<close> (a
  parsed JSON value holds no function, so the property is not callable) has no primitive
  value, and the conversion raises a TypeError.
\<close>

fun js_String :: "jsval \<Rightarrow> platform_error + string"
  and js_String_elements :: "jsval list \<Rightarrow> platform_error + string list" where
  "js_String JUndefined = Inr ''undefined''"
| "js_String JNull = Inr ''null''"
| "js_String (JBool b) = Inr (if b then ''true'' else ''false'')"
| "js_String (JNum n) = Inr (int_digits n)"
| "js_String (JStr s) = Inr s"
| "js_String (JArr vs) =
     (case js_String_elements vs of Inl e \<Rightarrow> Inl e | Inr parts \<Rightarrow> Inr (join '','' parts))"
| "js_String (JObj kvs) =
     (if map_of kvs ''toString'' \<noteq> None
      then Inl (PlatformError ''TypeError'' ''Cannot convert object to primitive value'')
      else Inr ''[object Object]'')"
| "js_String_elements [] = Inr []"
| "js_String_elements (v # vs) =
     (case (if v = JNull \<or> v = JUndefined then Inr [] else js_String v) of
        Inl e \<Rightarrow> Inl e
      | Inr s \<Rightarrow> (case js_String_elements vs of Inl e \<Rightarrow> Inl e | Inr ss \<Rightarrow> Inr (s # ss)))"

text \<open>Truthiness, as \<^verbatim>\<open>||\<close> and \<^verbatim>\<open>if\<close> test it.\<close>

fun truthy :: "jsval \<Rightarrow> bool" where
  "truthy JUndefined = False"
| "truthy JNull = False"
| "truthy (JBool b) = b"
| "truthy (JNum n) = (n \<noteq> 0)"
| "truthy (JStr s) = (s \<noteq> [])"
| "truthy (JArr vs) = True"
| "truthy (JObj kvs) = True"

text \<open>
  Reading the property \<open>key\<close> (here \<open>message\<close> or \<open>error\<close>) of a value: a TypeError on
  \<^verbatim>\<open>null\<close> and \<^verbatim>\<open>undefined\<close>, the stored value on an object that has the property,
  \<^verbatim>\<open>undefined\<close> otherwise.
\<close>

fun get_property :: "jsval \<Rightarrow> string \<Rightarrow> platform_error + jsval" where
  "get_property JUndefined key =
     Inl (PlatformError ''TypeError'' ''Cannot read properties of undefined'')"
| "get_property JNull key =
     Inl (PlatformError ''TypeError'' ''Cannot read properties of null'')"
| "get_property (JObj kvs) key =
     Inr (case map_of kvs key of Some v \<Rightarrow> v | None \<Rightarrow> JUndefined)"
| "get_property v key = Inr JUndefined"

text \<open>\<^verbatim>\<open>s.includes(t)\<close>, \<^verbatim>\<open>s.startsWith(t)\<close> and \<^verbatim>\<open>s.endsWith(t)\<close>\<close>

fun str_includes :: "string \<Rightarrow> string \<Rightarrow> bool" where
  "str_includes [] t = (t = [])"
| "str_includes (c # cs) t = (take (length t) (c # cs) = t \<or> str_includes cs t)"

definition startsWith :: "string \<Rightarrow> string \<Rightarrow> bool" where
  "startsWith s t \<longleftrightarrow> take (length t) s = t"

definition endsWith :: "string \<Rightarrow> string \<Rightarrow> bool" where
  "endsWith s t \<longleftrightarrow> drop (length s - length t) s = t \<and> length t \<le> length s"

text \<open>The error class of the HTTP module (its \<open>name\<close> is always \<open>HTTPError\<close>).\<close>

record HTTPError =
  err_message :: string
  err_status :: nat
  err_statusText :: string
  err_url :: string

text \<open>
  What can be thrown, or be the reason of a rejected promise: an \<open>HTTPError\<close>, a plain
  \<^verbatim>\<open>Error\<close> with its message, an error object of the platform (a TypeError, a
  SyntaxError, a DOMException), or any other value, such as the reason given to
  \<^verbatim>\<open>AbortController.abort(reason)\<close>, which may be \<^verbatim>\<open>null\<close>, a string or a plain object.
\<close>

datatype thrown =
    ThrownHTTPError HTTPError
  | ThrownError string
  | ThrownPlatform platform_error
  | ThrownValue jsval

text \<open>
  \<^verbatim>\<open>`${error.message}`\<close> for a caught value: the message of an error object; for any
  other value the property \<open>message\<close> is read, which throws a TypeError on \<^verbatim>\<open>null\<close> and
  \<^verbatim>\<open>undefined\<close>, and what is read is converted to a string.
\<close>

fun thrown_message :: "thrown \<Rightarrow> platform_error + string" where
  "thrown_message (ThrownHTTPError h) = Inr (err_message h)"
| "thrown_message (ThrownError m) = Inr m"
| "thrown_message (ThrownPlatform e) = Inr (error_message e)"
| "thrown_message (ThrownValue v) =
     (case get_property v ''message'' of
        Inl e \<Rightarrow> Inl e
      | Inr m \<Rightarrow> js_String m)"

text \<open>A console call: its level, its first argument (the tagged text) and the rest.\<close>

datatype console_arg = ArgThrown thrown | ArgString string

datatype console_entry =
    ConsoleError string "console_arg list"
  | ConsoleWarn string "console_arg list"

section \<open>The platform and the world\<close>

text \<open>
  The options of a request (\<^verbatim>\<open>RequestInit\<close>): the method, the body, the headers as a plain
  object (no header: the empty list) and every other option, by name.
\<close>

record RequestInit =
  "method" :: "string option"
  body :: "string option"
  headers :: "(string \<times> string) list"
  extra :: "(string \<times> string) list"

text \<open>
  A \<^verbatim>\<open>Response\<close>, with what each of its methods gives when the code calls it:
  \<open>res_content_type\<close> is \<^verbatim>\<open>headers.get('content-type')\<close>, \<open>res_json\<close> and \<open>res_text\<close> are the
  outcomes of \<^verbatim>\<open>await response.json()\<close> and \<^verbatim>\<open>await response.text()\<close>.
\<close>

record Response =
  ok :: bool
  res_status :: nat
  res_statusText :: string
  res_url :: string
  res_content_type :: "string option"
  res_json :: "thrown + jsval"
  res_text :: "thrown + string"

text \<open>A \<^verbatim>\<open>URL\<close> object: the text before the query, the query parameters, the fragment.\<close>

record URL =
  url_base :: string
  searchParams :: "(string \<times> string) list"
  url_hash :: string

text \<open>
  The platform functions the library calls and does not define: \<^verbatim>\<open>fetch\<close>,
  \<^verbatim>\<open>JSON.stringify\<close> (its result is \<^verbatim>\<open>undefined\<close>, here \<open>None\<close>, for a value with no JSON
  text; it throws on a cyclic structure or a BigInt), the \<^verbatim>\<open>URL\<close> constructor and
  \<^verbatim>\<open>url.toString()\<close>. \<open>'d\<close> is the type of the data handed to \<^verbatim>\<open>JSON.stringify\<close>.
\<close>

record 'd platform =
  fetch :: "string \<Rightarrow> RequestInit \<Rightarrow> thrown + Response"
  JSON_stringify :: "'d \<Rightarrow> platform_error + string option"
  URL_new :: "string \<Rightarrow> platform_error + URL"
  URL_toString :: "URL \<Rightarrow> string"

text \<open>
  The observable effects: the calls of \<^verbatim>\<open>fetch\<close> made so far, with their arguments, and
  the lines written to the console, both oldest first.
\<close>

record world =
  fetch_calls :: "(string \<times> RequestInit) list"
  console :: "console_entry list"

section \<open>Date formatting (src/format/index.ts)\<close>

text \<open>
  A \<^verbatim>\<open>Date\<close> is given by what its platform methods return for a locale argument
  (\<open>None\<close>: no locale passed); the three locale-aware methods can raise a RangeError.
\<close>

record Date =
  toLocaleDateString :: "string option \<Rightarrow> platform_error + string"
  toLocaleString :: "string option \<Rightarrow> platform_error + string"
  toLocaleTimeString :: "string option \<Rightarrow> platform_error + string"
  toString :: string

definition log_error :: "string \<Rightarrow> console_arg list \<Rightarrow> world \<Rightarrow> world" where
  "log_error tag args w = w\<lparr>console := console w @ [ConsoleError tag args]\<rparr>"

definition log_warn :: "string \<Rightarrow> console_arg list \<Rightarrow> world \<Rightarrow> world" where
  "log_warn tag args w = w\<lparr>console := console w @ [ConsoleWarn tag args]\<rparr>"

definition formatDate :: "Date \<Rightarrow> string option \<Rightarrow> world \<Rightarrow> string \<times> world" where
  "formatDate date locale w =
     (case toLocaleDateString date locale of
        Inr s \<Rightarrow> (s, w)
      | Inl error \<Rightarrow>
          (toString date,
           log_error ''[AckerJS Format] Error formatting date:''
             [ArgThrown (ThrownPlatform error)] w))"

definition formatDateTime :: "Date \<Rightarrow> string option \<Rightarrow> world \<Rightarrow> string \<times> world" where
  "formatDateTime date locale w =
     (case toLocaleString date locale of
        Inr s \<Rightarrow> (s, w)
      | Inl error \<Rightarrow>
          (toString date,
           log_error ''[AckerJS Format] Error formatting date time:''
             [ArgThrown (ThrownPlatform error)] w))"

definition formatTime :: "Date \<Rightarrow> string option \<Rightarrow> world \<Rightarrow> string \<times> world" where
  "formatTime date locale w =
     (case toLocaleTimeString date locale of
        Inr s \<Rightarrow> (s, w)
      | Inl error \<Rightarrow>
          (toString date,
           log_error ''[AckerJS Format] Error formatting time:''
             [ArgThrown (ThrownPlatform error)] w))"

section \<open>HTTP helpers (the HTTP module)\<close>

text \<open>
  Object spread \<^verbatim>\<open>{...a, ...b}\<close> on property lists: a key of \<open>b\<close> replaces the value of
  the same key of \<open>a\<close> in place, a new key goes to the end.
\<close>

definition spread :: "('k \<times> 'v) list \<Rightarrow> ('k \<times> 'v) list \<Rightarrow> ('k \<times> 'v) list" where
  "spread a b = fold (\<lambda>(k, v) acc. AList.update k v acc) b a"

definition no_options :: RequestInit where
  "no_options = \<lparr>method = None, body = None, headers = [], extra = []\<rparr>"

text \<open>\<^verbatim>\<open>...options\<close> for an optional argument: nothing when it is \<^verbatim>\<open>undefined\<close>.\<close>

definition spread_options :: "RequestInit option \<Rightarrow> RequestInit" where
  "spread_options options = (case options of None \<Rightarrow> no_options | Some opts \<Rightarrow> opts)"

text \<open>
  \<^verbatim>\<open>new HTTPError(message, status, statusText, url)\<close>: the \<^verbatim>\<open>Error\<close> constructor converts
  a message that is not \<^verbatim>\<open>undefined\<close> to a string, which can throw.
\<close>

definition new_HTTPError :: "jsval \<Rightarrow> nat \<Rightarrow> string \<Rightarrow> string \<Rightarrow> platform_error + HTTPError" where
  "new_HTTPError message status statusText url =
     (case (if message = JUndefined then Inr [] else js_String message) of
        Inl e \<Rightarrow> Inl e
      | Inr m \<Rightarrow>
          Inr \<lparr>err_message = m, err_status = status, err_statusText = statusText, err_url = url\<rparr>)"

text \<open>
  The \<^verbatim>\<open>try\<close> block of \<open>handleResponse\<close>: the message read from the body, or the
  exception that sends control to the empty \<^verbatim>\<open>catch\<close>.
\<close>

definition read_error_message :: "Response \<Rightarrow> jsval \<Rightarrow> thrown + jsval" where
  "read_error_message response errorMessage =
     (if (case res_content_type response of
            None \<Rightarrow> False
          | Some contentType \<Rightarrow> contentType \<noteq> [] \<and> str_includes contentType ''application/json'')
      then
        (case res_json response of
           Inl e \<Rightarrow> Inl e
         | Inr errorData \<Rightarrow>
             (case get_property errorData ''message'' of
                Inl e \<Rightarrow> Inl (ThrownPlatform e)
              | Inr m \<Rightarrow>
                  if truthy m then Inr m
                  else (case get_property errorData ''error'' of
                          Inl e \<Rightarrow> Inl (ThrownPlatform e)
                        | Inr er \<Rightarrow> if truthy er then Inr er else Inr errorMessage)))
      else
        (case res_text response of
           Inl e \<Rightarrow> Inl e
         | Inr errorText \<Rightarrow> if errorText \<noteq> [] then Inr (JStr errorText) else Inr errorMessage))"

definition handleResponse :: "Response \<Rightarrow> thrown + unit" where
  "handleResponse response =
     (if \<not> ok response then
        let errorMessage0 =
              JStr (''HTTP '' @ nat_digits (res_status response) @ '': '' @ res_statusText response);
            errorMessage =
              (case read_error_message response errorMessage0 of
                 Inl e \<Rightarrow> errorMessage0
               | Inr m \<Rightarrow> m)
        in (case new_HTTPError errorMessage (res_status response) (res_statusText response)
                  (res_url response) of
              Inl e \<Rightarrow> Inl (ThrownPlatform e)
            | Inr h \<Rightarrow> Inl (ThrownHTTPError h))
      else Inr ())"

text \<open>
  The \<^verbatim>\<open>catch\<close> block of \<open>fetchJSON\<close>, for any caught value. An \<open>HTTPError\<close> is thrown
  again. Anything else is logged first; then the message of the new \<^verbatim>\<open>Error\<close> is built
  from \<^verbatim>\<open>error.message\<close>, and when that expression throws (the caught value is \<^verbatim>\<open>null\<close>
  or \<^verbatim>\<open>undefined\<close>, or its message has no string form) the exception leaves the block.
\<close>

definition fetchJSON_catch :: "string \<Rightarrow> thrown \<Rightarrow> world \<Rightarrow> (thrown + jsval) \<times> world" where
  "fetchJSON_catch url error w =
     (case error of
        ThrownHTTPError h \<Rightarrow> (Inl error, w)
      | _ \<Rightarrow>
          (let logged = log_error ''[AckerJS HTTP] Fetch error:'' [ArgThrown error] w
           in case thrown_message error of
                Inl e \<Rightarrow> (Inl (ThrownPlatform e), logged)
              | Inr m \<Rightarrow>
                  (Inl (ThrownError (''Failed to fetch from '' @ url @ '': '' @ m)), logged)))"

definition call_fetch :: "string \<Rightarrow> RequestInit \<Rightarrow> world \<Rightarrow> world" where
  "call_fetch url init w = w\<lparr>fetch_calls := fetch_calls w @ [(url, init)]\<rparr>"

text \<open>The second argument \<open>fetchJSON\<close> gives to \<^verbatim>\<open>fetch\<close>.\<close>

definition fetchJSON_init :: "RequestInit option \<Rightarrow> RequestInit" where
  "fetchJSON_init options =
     (spread_options options)
       \<lparr>headers := spread [(''Content-Type'', ''application/json'')]
                     (headers (spread_options options))\<rparr>"

definition fetchJSON ::
  "'d platform \<Rightarrow> string \<Rightarrow> RequestInit option \<Rightarrow> world \<Rightarrow> (thrown + jsval) \<times> world" where
  "fetchJSON p url options w =
     (let init = fetchJSON_init options;
          w1 = call_fetch url init w
      in case fetch p url init of
           Inl error \<Rightarrow> fetchJSON_catch url error w1
         | Inr response \<Rightarrow>
             (case handleResponse response of
                Inl error \<Rightarrow> fetchJSON_catch url error w1
              | Inr u \<Rightarrow>
                  if res_status response = 204 then (Inr JUndefined, w1)
                  else (case res_json response of
                          Inl error \<Rightarrow> fetchJSON_catch url error w1
                        | Inr v \<Rightarrow> (Inr v, w1))))"

text \<open>
  The value \<open>x\<close> is thrown inside the \<^verbatim>\<open>try\<close> block of \<open>fetchJSON\<close>, for the platform \<open>p\<close>
  and the request \<open>url\<close>, \<open>init\<close>: \<open>x\<close> is the reason \<^verbatim>\<open>fetch\<close> rejects with; or
  \<^verbatim>\<open>fetch\<close> gives a response and \<open>x\<close> is what \<open>handleResponse\<close> throws for it; or
  \<open>handleResponse\<close> returns, the status is not 204 and \<open>x\<close> is the reason
  \<^verbatim>\<open>response.json()\<close> rejects with.
\<close>

definition thrown_in_try :: "'d platform \<Rightarrow> string \<Rightarrow> RequestInit \<Rightarrow> thrown \<Rightarrow> bool" where
  "thrown_in_try p url init x \<longleftrightarrow>
     (case fetch p url init of
        Inl y \<Rightarrow> y = x
      | Inr response \<Rightarrow>
          (case handleResponse response of
             Inl y \<Rightarrow> y = x
           | Inr u \<Rightarrow> res_status response \<noteq> 204 \<and> res_json response = Inl x))"

text \<open>
  The wrappers. The object literal is built before \<open>fetchJSON\<close> is entered, so an exception
  of \<^verbatim>\<open>JSON.stringify(data)\<close> leaves the wrapper at once.
\<close>

definition postJSON ::
  "'d platform \<Rightarrow> string \<Rightarrow> 'd \<Rightarrow> RequestInit option \<Rightarrow> world \<Rightarrow> (thrown + jsval) \<times> world" where
  "postJSON p url data options w =
     (case JSON_stringify p data of
        Inl e \<Rightarrow> (Inl (ThrownPlatform e), w)
      | Inr text \<Rightarrow>
          fetchJSON p url
            (Some ((spread_options options)
               \<lparr>method := Some ''POST'', body := text,
                headers := spread [(''Content-Type'', ''application/json'')]
                             (headers (spread_options options))\<rparr>)) w)"

definition putJSON ::
  "'d platform \<Rightarrow> string \<Rightarrow> 'd \<Rightarrow> RequestInit option \<Rightarrow> world \<Rightarrow> (thrown + jsval) \<times> world" where
  "putJSON p url data options w =
     (case JSON_stringify p data of
        Inl e \<Rightarrow> (Inl (ThrownPlatform e), w)
      | Inr text \<Rightarrow>
          fetchJSON p url
            (Some ((spread_options options)
               \<lparr>method := Some ''PUT'', body := text,
                headers := spread [(''Content-Type'', ''application/json'')]
                             (headers (spread_options options))\<rparr>)) w)"

definition patchJSON ::
  "'d platform \<Rightarrow> string \<Rightarrow> 'd \<Rightarrow> RequestInit option \<Rightarrow> world \<Rightarrow> (thrown + jsval) \<times> world" where
  "patchJSON p url data options w =
     (case JSON_stringify p data of
        Inl e \<Rightarrow> (Inl (ThrownPlatform e), w)
      | Inr text \<Rightarrow>
          fetchJSON p url
            (Some ((spread_options options)
               \<lparr>method := Some ''PATCH'', body := text,
                headers := spread [(''Content-Type'', ''application/json'')]
                             (headers (spread_options options))\<rparr>)) w)"

definition deleteJSON ::
  "'d platform \<Rightarrow> string \<Rightarrow> RequestInit option \<Rightarrow> world \<Rightarrow> (thrown + jsval) \<times> world" where
  "deleteJSON p url options w =
     fetchJSON p url (Some ((spread_options options)\<lparr>method := Some ''DELETE''\<rparr>)) w"

definition get ::
  "'d platform \<Rightarrow> string \<Rightarrow> RequestInit option \<Rightarrow> world \<Rightarrow> (thrown + jsval) \<times> world" where
  "get p url options w =
     fetchJSON p url (Some ((spread_options options)\<lparr>method := Some ''GET''\<rparr>)) w"

definition post ::
  "'d platform \<Rightarrow> string \<Rightarrow> 'd \<Rightarrow> RequestInit option \<Rightarrow> world \<Rightarrow> (thrown + jsval) \<times> world" where
  "post p url data options w = postJSON p url data options w"

definition put ::
  "'d platform \<Rightarrow> string \<Rightarrow> 'd \<Rightarrow> RequestInit option \<Rightarrow> world \<Rightarrow> (thrown + jsval) \<times> world" where
  "put p url data options w = putJSON p url data options w"

definition patch ::
  "'d platform \<Rightarrow> string \<Rightarrow> 'd \<Rightarrow> RequestInit option \<Rightarrow> world \<Rightarrow> (thrown + jsval) \<times> world" where
  "patch p url data options w = patchJSON p url data options w"

definition del ::
  "'d platform \<Rightarrow> string \<Rightarrow> RequestInit option \<Rightarrow> world \<Rightarrow> (thrown + jsval) \<times> world" where
  "del p url options w = deleteJSON p url options w"

subsection \<open>createFetch\<close>

definition mergeURL :: "string \<Rightarrow> string \<Rightarrow> string" where
  "mergeURL baseURL url =
     (if startsWith url ''http://'' \<or> startsWith url ''https://'' then url
      else
        let base = (if endsWith baseURL ''/'' then take (length baseURL - 1) baseURL else baseURL);
            path = (if startsWith url ''/'' then url else ''/'' @ url)
        in base @ path)"

text \<open>
  \<^verbatim>\<open>{...defaultOptions, ...options, headers: {...}}\<close>: an option set in \<open>options\<close> wins
  over the default, and the headers of both are merged the same way.
\<close>

definition mergeOptions :: "RequestInit option \<Rightarrow> RequestInit option \<Rightarrow> RequestInit" where
  "mergeOptions defaultOptions options =
     (let d = spread_options defaultOptions; opts = spread_options options
      in \<lparr>method = (case method opts of Some m \<Rightarrow> Some m | None \<Rightarrow> method d),
          body = (case body opts of Some b \<Rightarrow> Some b | None \<Rightarrow> body d),
          headers = spread (headers d) (headers opts),
          extra = spread (extra d) (extra opts)\<rparr>)"

text \<open>The object \<open>createFetch\<close> returns: six functions closed over the base URL and the
  default options.\<close>

record 'd configured_fetch =
  cf_get :: "string \<Rightarrow> RequestInit option \<Rightarrow> world \<Rightarrow> (thrown + jsval) \<times> world"
  cf_post :: "string \<Rightarrow> 'd \<Rightarrow> RequestInit option \<Rightarrow> world \<Rightarrow> (thrown + jsval) \<times> world"
  cf_put :: "string \<Rightarrow> 'd \<Rightarrow> RequestInit option \<Rightarrow> world \<Rightarrow> (thrown + jsval) \<times> world"
  cf_patch :: "string \<Rightarrow> 'd \<Rightarrow> RequestInit option \<Rightarrow> world \<Rightarrow> (thrown + jsval) \<times> world"
  cf_delete :: "string \<Rightarrow> RequestInit option \<Rightarrow> world \<Rightarrow> (thrown + jsval) \<times> world"
  cf_fetchJSON :: "string \<Rightarrow> RequestInit option \<Rightarrow> world \<Rightarrow> (thrown + jsval) \<times> world"

definition createFetch ::
  "'d platform \<Rightarrow> string \<Rightarrow> RequestInit option \<Rightarrow> 'd configured_fetch" where
  "createFetch p baseURL defaultOptions =
     \<lparr>cf_get = (\<lambda>url options.
        get p (mergeURL baseURL url) (Some (mergeOptions defaultOptions options))),
      cf_post = (\<lambda>url data options.
        post p (mergeURL baseURL url) data (Some (mergeOptions defaultOptions options))),
      cf_put = (\<lambda>url data options.
        put p (mergeURL baseURL url) data (Some (mergeOptions defaultOptions options))),
      cf_patch = (\<lambda>url data options.
        patch p (mergeURL baseURL url) data (Some (mergeOptions defaultOptions options))),
      cf_delete = (\<lambda>url options.
        del p (mergeURL baseURL url) (Some (mergeOptions defaultOptions options))),
      cf_fetchJSON = (\<lambda>url options.
        fetchJSON p (mergeURL baseURL url) (Some (mergeOptions defaultOptions options)))\<rparr>"

subsection \<open>buildURL and parseURL\<close>

text \<open>
  \<^verbatim>\<open>value.forEach(v => url.searchParams.append(key, String(v)))\<close>, on the list of query
  parameters: the elements are converted and appended in order, and the first conversion
  that throws ends the loop.
\<close>

fun append_each :: "string \<Rightarrow> jsval list \<Rightarrow> (string \<times> string) list
    \<Rightarrow> platform_error + (string \<times> string) list" where
  "append_each key [] sp = Inr sp"
| "append_each key (v # vs) sp =
     (case js_String v of
        Inl e \<Rightarrow> Inl e
      | Inr s \<Rightarrow> append_each key vs (sp @ [(key, s)]))"

text \<open>The body of the callback given to \<^verbatim>\<open>Object.entries(params).forEach\<close>.\<close>

definition append_entry :: "string \<Rightarrow> jsval \<Rightarrow> (string \<times> string) list
    \<Rightarrow> platform_error + (string \<times> string) list" where
  "append_entry key val sp =
     (if val \<noteq> JNull \<and> val \<noteq> JUndefined then
        (case val of
           JArr vs \<Rightarrow> append_each key vs sp
         | _ \<Rightarrow> (case js_String val of Inl e \<Rightarrow> Inl e | Inr s \<Rightarrow> Inr (sp @ [(key, s)])))
      else Inr sp)"

fun append_entries :: "(string \<times> jsval) list \<Rightarrow> (string \<times> string) list
    \<Rightarrow> platform_error + (string \<times> string) list" where
  "append_entries [] sp = Inr sp"
| "append_entries ((key, val) # rest) sp =
     (case append_entry key val sp of
        Inl e \<Rightarrow> Inl e
      | Inr sp' \<Rightarrow> append_entries rest sp')"

text \<open>
  \<open>params\<close> is \<^verbatim>\<open>Object.entries(params)\<close>, the own properties in order. \<open>buildURL_object\<close>
  is the \<^verbatim>\<open>URL\<close> object when the \<^verbatim>\<open>return\<close> is reached; \<open>buildURL\<close> returns its text.
\<close>

definition buildURL_object ::
  "'d platform \<Rightarrow> string \<Rightarrow> (string \<times> jsval) list \<Rightarrow> thrown + URL" where
  "buildURL_object p baseURL params =
     (case URL_new p baseURL of
        Inl e \<Rightarrow> Inl (ThrownPlatform e)
      | Inr url \<Rightarrow>
          (case append_entries params (searchParams url) of
             Inl e \<Rightarrow> Inl (ThrownPlatform e)
           | Inr sp \<Rightarrow> Inr (url\<lparr>searchParams := sp\<rparr>)))"

definition buildURL ::
  "'d platform \<Rightarrow> string \<Rightarrow> (string \<times> jsval) list \<Rightarrow> thrown + string" where
  "buildURL p baseURL params =
     (case buildURL_object p baseURL params of
        Inl t \<Rightarrow> Inl t
      | Inr url \<Rightarrow> Inr (URL_toString p url))"

text \<open>
  \<^verbatim>\<open>obj[key] = text\<close> on a plain object, as a list of own properties: the key
  \<open>__proto__\<close> goes to the inherited setter, which ignores a string and stores nothing.
\<close>

definition set_member :: "string \<Rightarrow> 'v \<Rightarrow> (string \<times> 'v) list \<Rightarrow> (string \<times> 'v) list" where
  "set_member key v obj = (if key = ''__proto__'' then obj else AList.update key v obj)"

text \<open>
  \<open>parseURL\<close> returns an object: the query parameters by key, the last value of a repeated
  key; the empty object \<^verbatim>\<open>{}\<close> when the URL constructor throws.
\<close>

definition parseURL :: "'d platform \<Rightarrow> string \<Rightarrow> world \<Rightarrow> jsval \<times> world" where
  "parseURL p url w =
     (case URL_new p url of
        Inr urlObj \<Rightarrow>
          (JObj (fold (\<lambda>(key, val) params. set_member key (JStr val) params)
                   (searchParams urlObj) []), w)
      | Inl error \<Rightarrow>
          (JObj [], log_error ''[AckerJS HTTP] Invalid URL for parsing:'' [ArgString url] w))"

section \<open>The component helper (dom/component.js)\<close>

text \<open>
  What a render callback returns: a string, an \<^verbatim>\<open>HTMLElement\<close> (of type \<open>'e\<close>), or any
  other value, which the \<open>render\<close> method ignores. The children of an element are the
  nodes parsed from a string assigned to \<^verbatim>\<open>innerHTML\<close>, or appended elements.
\<close>

datatype 'e content = ContentString string | ContentElement 'e | ContentOther

datatype 'e node = HTMLNodes string | ElementNode 'e

text \<open>
  The class \<open>AckerComponent\<close> that a call of \<open>component\<close> creates closes over the render
  callback (which may throw a value of type \<open>'x\<close>) and the observed attribute names.
\<close>

record ('x, 'e) AckerComponent =
  render_callback :: "(string \<times> string) list \<Rightarrow> 'x + 'e content"
  observedAttributes :: "string list"

text \<open>
  An instance: its attributes in order, its children, and the props of every call of the
  render callback made on it so far, oldest first.
\<close>

record 'e element =
  attributes :: "(string \<times> string) list"
  childNodes :: "'e node list"
  render_calls :: "(string \<times> string) list list"

definition getProps :: "'e element \<Rightarrow> (string \<times> string) list" where
  "getProps this =
     fold (\<lambda>(name, val) props. set_member name val props) (attributes this) []"

text \<open>The method \<open>render\<close> of the class.\<close>

definition component_render ::
  "('x, 'e) AckerComponent \<Rightarrow> 'e element \<Rightarrow> ('x + unit) \<times> 'e element" where
  "component_render cls this =
     (let props = getProps this;
          called = this\<lparr>render_calls := render_calls this @ [props]\<rparr>
      in case render_callback cls props of
           Inl x \<Rightarrow> (Inl x, called)
         | Inr content \<Rightarrow>
             (Inr (),
              called\<lparr>childNodes :=
                (case content of
                   ContentString s \<Rightarrow> [HTMLNodes s]
                 | ContentElement e \<Rightarrow> [ElementNode e]
                 | ContentOther \<Rightarrow> [])\<rparr>))"

definition connectedCallback ::
  "('x, 'e) AckerComponent \<Rightarrow> 'e element \<Rightarrow> ('x + unit) \<times> 'e element" where
  "connectedCallback cls this = component_render cls this"

text \<open>\<open>oldValue\<close> and \<open>newValue\<close> are strings or \<^verbatim>\<open>null\<close> (\<open>None\<close>).\<close>

definition attributeChangedCallback ::
  "('x, 'e) AckerComponent \<Rightarrow> string \<Rightarrow> string option \<Rightarrow> string option \<Rightarrow> 'e element
     \<Rightarrow> ('x + unit) \<times> 'e element" where
  "attributeChangedCallback cls name oldValue newValue this =
     (if oldValue \<noteq> newValue then component_render cls this else (Inr (), this))"

text \<open>
  \<open>component\<close>, on the registry of custom elements (tag name and class, in order of
  definition). \<open>define_error\<close> is the exception \<^verbatim>\<open>customElements.define\<close> throws for a
  tag name, if any; \<open>observed\<close> is the optional third argument (default: no attribute).
\<close>

definition component ::
  "(string \<Rightarrow> platform_error option) \<Rightarrow> string
     \<Rightarrow> ((string \<times> string) list \<Rightarrow> 'x + 'e content) \<Rightarrow> string list option
     \<Rightarrow> (string \<times> ('x, 'e) AckerComponent) list \<times> world
     \<Rightarrow> (string \<times> ('x, 'e) AckerComponent) list \<times> world" where
  "component define_error tagName render observed st =
     (let registry = fst st; w = snd st in
      if \<not> str_includes tagName ''-'' then
        (registry,
         log_error (''[AckerJS Component] Invalid tag name: '' @ tagName @
                    ''. Custom elements must contain a hyphen.'') [] w)
      else if map_of registry tagName \<noteq> None then
        (registry,
         log_warn (''[AckerJS Component] Component '' @ tagName @ '' is already defined.'') [] w)
      else
        (case define_error tagName of
           Some error \<Rightarrow>
             (registry,
              log_error (''[AckerJS Component] Failed to define component '' @ tagName)
                [ArgThrown (ThrownPlatform error)] w)
         | None \<Rightarrow>
             (registry @
                [(tagName,
                  \<lparr>render_callback = render,
                   observedAttributes = (case observed of None \<Rightarrow> [] | Some names \<Rightarrow> names)\<rparr>)],
              w)))"

section \<open>Counting requests\<close>

text \<open>
  A call that started in world \<open>w\<close> and returned \<open>r\<close> (its result and the world after it)
  invoked \<^verbatim>\<open>fetch\<close> exactly once, on \<open>url\<close>: the list of calls grew by one entry, which is
  a call on \<open>url\<close>.
\<close>

definition invokes_fetch_once :: "string \<Rightarrow> world \<Rightarrow> 'a \<times> world \<Rightarrow> bool" where
  "invokes_fetch_once url w r \<longleftrightarrow>
     length (fetch_calls (snd r)) = Suc (length (fetch_calls w)) \<and>
     take (length (fetch_calls w)) (fetch_calls (snd r)) = fetch_calls w \<and>
     fst (last (fetch_calls (snd r))) = url"

section \<open>The query parameters buildURL is to add\<close>

text \<open>
  Following the description of \<open>buildURL\<close>: an entry whose value is \<^verbatim>\<open>null\<close> or
  \<^verbatim>\<open>undefined\<close> is left out, an array-valued entry gives each of its elements, and any
  other entry gives its value.
\<close>

definition values_to_append :: "jsval \<Rightarrow> jsval list" where
  "values_to_append val =
     (case val of JNull \<Rightarrow> [] | JUndefined \<Rightarrow> [] | JArr vs \<Rightarrow> vs | _ \<Rightarrow> [val])"

text \<open>The key and the value of every parameter to add, in the order of the entries.\<close>

definition requested_parameters :: "(string \<times> jsval) list \<Rightarrow> (string \<times> jsval) list" where
  "requested_parameters params =
     concat (map (\<lambda>(key, val). map (\<lambda>v. (key, v)) (values_to_append val)) params)"

section \<open>Sample inputs\<close>

text \<open>
  Concrete values on which the model is evaluated below: an empty world, a date whose
  locale-aware methods reject the malformed locale tag \<open>en_US\<close>, and a platform that
  serves three resources (an ok response and two error responses), has one request
  aborted, fails to connect anywhere else, and parses one base URL.
\<close>

definition world0 :: world where
  "world0 = \<lparr>fetch_calls = [], console = []\<rparr>"

definition sample_locale_result :: "string \<Rightarrow> string option \<Rightarrow> platform_error + string" where
  "sample_locale_result text locale =
     (if locale = Some ''en_US''
      then Inl (PlatformError ''RangeError'' ''Incorrect locale information provided'')
      else Inr text)"

definition sample_date :: Date where
  "sample_date =
     \<lparr>toLocaleDateString = sample_locale_result ''11/16/2025'',
      toLocaleString = sample_locale_result ''11/16/2025, 2:30:00 PM'',
      toLocaleTimeString = sample_locale_result ''2:30:00 PM'',
      toString = ''Sun Nov 16 2025 14:30:00 GMT+0000 (Coordinated Universal Time)''\<rparr>"

text \<open>Data for \<^verbatim>\<open>JSON.stringify\<close>: a plain object, and an object that contains itself.\<close>

datatype sample_data = SampleUser | SampleCyclic

definition sample_stringify :: "sample_data \<Rightarrow> platform_error + string option" where
  "sample_stringify d =
     (case d of
        SampleUser \<Rightarrow> Inr (Some ''{\"name\":\"John\"}'')
      | SampleCyclic \<Rightarrow> Inl (PlatformError ''TypeError'' ''Converting circular structure to JSON''))"

definition sample_ok_response :: Response where
  "sample_ok_response =
     \<lparr>ok = True, res_status = 200, res_statusText = ''OK'',
      res_url = ''https://api.example.com/user/1'',
      res_content_type = Some ''application/json'',
      res_json = Inr (JObj [(''name'', JStr ''John'')]),
      res_text = Inr ''{\"name\":\"John\"}''\<rparr>"

definition sample_not_found_response :: Response where
  "sample_not_found_response =
     \<lparr>ok = False, res_status = 404, res_statusText = ''Not Found'',
      res_url = ''https://api.example.com/user/2'',
      res_content_type = Some ''application/json'',
      res_json = Inr (JObj [(''message'', JStr ''No such user'')]),
      res_text = Inr ''{\"message\":\"No such user\"}''\<rparr>"

text \<open>An error body whose \<open>message\<close> member is an object with a member named \<open>toString\<close>.\<close>

definition sample_odd_error_response :: Response where
  "sample_odd_error_response =
     \<lparr>ok = False, res_status = 500, res_statusText = ''Internal Server Error'',
      res_url = ''https://api.example.com/user/3'',
      res_content_type = Some ''application/json'',
      res_json = Inr (JObj [(''message'', JObj [(''toString'', JNum 1)])]),
      res_text = Inr ''{\"message\":{\"toString\":1}}''\<rparr>"

text \<open>
  The request for \<open>/aborted\<close> is one whose signal is aborted with \<^verbatim>\<open>abort(null)\<close>:
  \<^verbatim>\<open>fetch\<close> rejects with the reason, \<^verbatim>\<open>null\<close>.
\<close>

definition sample_fetch :: "string \<Rightarrow> RequestInit \<Rightarrow> thrown + Response" where
  "sample_fetch url init =
     (if url = ''https://api.example.com/user/1'' then Inr sample_ok_response
      else if url = ''https://api.example.com/user/2'' then Inr sample_not_found_response
      else if url = ''https://api.example.com/user/3'' then Inr sample_odd_error_response
      else if url = ''https://api.example.com/aborted'' then Inl (ThrownValue JNull)
      else Inl (ThrownPlatform (PlatformError ''TypeError'' ''Failed to fetch'')))"

definition sample_URL_new :: "string \<Rightarrow> platform_error + URL" where
  "sample_URL_new s =
     (if s = ''https://api.example.com/search''
      then Inr \<lparr>url_base = ''https://api.example.com/search'', searchParams = [], url_hash = []\<rparr>
      else Inl (PlatformError ''TypeError'' ''Invalid URL''))"

definition sample_URL_toString :: "URL \<Rightarrow> string" where
  "sample_URL_toString u =
     url_base u @
     (if searchParams u = [] then []
      else ''?'' @ join ''&'' (map (\<lambda>(k, v). k @ ''='' @ v) (searchParams u))) @
     url_hash u"

definition sample_platform :: "sample_data platform" where
  "sample_platform =
     \<lparr>fetch = sample_fetch, JSON_stringify = sample_stringify,
      URL_new = sample_URL_new, URL_toString = sample_URL_toString\<rparr>"

text \<open>
  A component as in the documentation of \<open>component\<close>: \<open>user-card\<close> renders its \<open>name\<close>
  attribute. The sample instance has the attribute \<open>name\<close> set to \<open>Ann\<close>.
\<close>

definition sample_render :: "(string \<times> string) list \<Rightarrow> string + unit content" where
  "sample_render props =
     Inr (ContentString
       (''<div class=\"card\"><h3>'' @
        (case map_of props ''name'' of Some n \<Rightarrow> n | None \<Rightarrow> ''undefined'') @
        ''</h3></div>''))"

definition sample_define_error :: "string \<Rightarrow> platform_error option" where
  "sample_define_error tagName = None"

definition sample_class :: "(string, unit) AckerComponent" where
  "sample_class = \<lparr>render_callback = sample_render, observedAttributes = [''name'']\<rparr>"

definition sample_element :: "unit element" where
  "sample_element = \<lparr>attributes = [(''name'', ''Ann'')], childNodes = [], render_calls = []\<rparr>"

section \<open>Properties of the string helpers\<close>

lemma unescapeHTML_htmlEscapes:
  "unescapeHTML (htmlEscapes c @ rest) = c # unescapeHTML rest"
  by (simp add: htmlEscapes_def)

text \<open>
  C9. For every string \<open>s\<close>, unescaping the escaped string gives \<open>s\<close> back: escaping the
  five special characters and then unescaping the five entities is the identity, also on
  strings that already contain entity text such as \<open>&amp;\<close>.
\<close>

theorem unescapeHTML_escapeHTML: "unescapeHTML (escapeHTML s) = s"
  by (induction s) (simp_all add: escapeHTML_def unescapeHTML_htmlEscapes)

text \<open>
  C2. \<open>slugify\<close> applied to \<open>Hello World!\<close> returns \<open>hello-world\<close>.
\<close>

theorem slugify_hello_world: "slugify ''Hello World!'' = ''hello-world''"
  by code_simp

text \<open>
  C1. The source's documentation gives \<open>1.00 MB\<close> for \<open>formatBytes(1048576)\<close> with the
  default of two decimals. The code passes the fixed-point text through \<^verbatim>\<open>parseFloat\<close>,
  which drops the zeros of the fraction: it returns \<open>1 MB\<close>.
\<close>

theorem formatBytes_1048576: "formatBytes 1048576 None = Inr ''1 MB''"
proof -
  have i: "floor_log 1024 1048576 = 2"
    by (simp add: floor_log.simps)
  have digits: "nat_digits 100 = ''100''"
    by (simp add: nat_digits.simps digit_char_def)
  have fixed: "toFixed 1048576 1048576 2 = ''1.00''"
    by (simp add: toFixed_def digits)
  have printed: "parseFloat_toString ''1.00'' = ''1''"
    by (simp add: parseFloat_toString_def)
  show ?thesis
    by (simp add: formatBytes_def i fixed printed sizes_def)
qed

section \<open>Properties of the date helpers\<close>

text \<open>
  C6. When the platform's formatting call throws for a date and a locale, each of
  \<open>formatDate\<close>, \<open>formatDateTime\<close> and \<open>formatTime\<close> catches the exception, logs it
  under the tag of the Format module, and returns the date's default string
  (\<^verbatim>\<open>date.toString()\<close>); nothing is thrown to the caller.
\<close>

theorem format_date_fallback:
  "(toLocaleDateString date locale = Inl e \<longrightarrow>
      formatDate date locale w =
        (toString date,
         log_error ''[AckerJS Format] Error formatting date:'' [ArgThrown (ThrownPlatform e)] w)) \<and>
   (toLocaleString date locale = Inl e \<longrightarrow>
      formatDateTime date locale w =
        (toString date,
         log_error ''[AckerJS Format] Error formatting date time:''
           [ArgThrown (ThrownPlatform e)] w)) \<and>
   (toLocaleTimeString date locale = Inl e \<longrightarrow>
      formatTime date locale w =
        (toString date,
         log_error ''[AckerJS Format] Error formatting time:'' [ArgThrown (ThrownPlatform e)] w))"
  by (simp add: formatDate_def formatDateTime_def formatTime_def)

theorem format_date_fallback_witness:
  "toLocaleDateString sample_date (Some ''en_US'') =
     Inl (PlatformError ''RangeError'' ''Incorrect locale information provided'') \<and>
   toLocaleString sample_date (Some ''en_US'') =
     Inl (PlatformError ''RangeError'' ''Incorrect locale information provided'') \<and>
   toLocaleTimeString sample_date (Some ''en_US'') =
     Inl (PlatformError ''RangeError'' ''Incorrect locale information provided'') \<and>
   fst (formatDate sample_date (Some ''en_US'') world0) = toString sample_date \<and>
   fst (formatDateTime sample_date (Some ''en_US'') world0) = toString sample_date \<and>
   fst (formatTime sample_date (Some ''en_US'') world0) = toString sample_date \<and>
   console (snd (formatDate sample_date (Some ''en_US'') world0)) =
     [ConsoleError ''[AckerJS Format] Error formatting date:''
        [ArgThrown (ThrownPlatform
           (PlatformError ''RangeError'' ''Incorrect locale information provided''))]]"
proof -
  have h: "toLocaleDateString sample_date (Some ''en_US'') =
             Inl (PlatformError ''RangeError'' ''Incorrect locale information provided'')"
          "toLocaleString sample_date (Some ''en_US'') =
             Inl (PlatformError ''RangeError'' ''Incorrect locale information provided'')"
          "toLocaleTimeString sample_date (Some ''en_US'') =
             Inl (PlatformError ''RangeError'' ''Incorrect locale information provided'')"
    by (simp_all add: sample_date_def sample_locale_result_def)
  show ?thesis
    using h format_date_fallback [of sample_date "Some ''en_US''"
        "PlatformError ''RangeError'' ''Incorrect locale information provided''" world0]
    by (simp add: log_error_def world0_def)
qed

section \<open>Properties of the URL helpers\<close>

text \<open>
  C5, as the code has it. For every string the URL constructor rejects, \<open>parseURL\<close>
  catches the exception, logs one line under the tag of the HTTP module with the input,
  and returns the empty object \<^verbatim>\<open>{}\<close>; nothing is thrown.
\<close>

theorem parseURL_invalid:
  "URL_new p url = Inl e \<Longrightarrow>
   parseURL p url w =
     (JObj [], log_error ''[AckerJS HTTP] Invalid URL for parsing:'' [ArgString url] w)"
  by (simp add: parseURL_def)

theorem parseURL_invalid_witness:
  "URL_new sample_platform ''not a url'' = Inl (PlatformError ''TypeError'' ''Invalid URL'') \<and>
   parseURL sample_platform ''not a url'' world0 =
     (JObj [],
      \<lparr>fetch_calls = [],
       console = [ConsoleError ''[AckerJS HTTP] Invalid URL for parsing:''
                    [ArgString ''not a url'']]\<rparr>)"
proof -
  have h: "URL_new sample_platform ''not a url'' = Inl (PlatformError ''TypeError'' ''Invalid URL'')"
    by (simp add: sample_platform_def sample_URL_new_def)
  show ?thesis
    using h parseURL_invalid [OF h, of world0]
    by (simp add: log_error_def world0_def)
qed

text \<open>
  The default is an empty object: it is none of \<^verbatim>\<open>null\<close>, the empty string, the empty
  array and the input string.
\<close>

theorem parseURL_default_not_in_set:
  "URL_new sample_platform ''not a url'' = Inl (PlatformError ''TypeError'' ''Invalid URL'') \<and>
   fst (parseURL sample_platform ''not a url'' world0) \<notin>
     {JNull, JStr [], JArr [], JStr ''not a url''}"
  by (simp add: parseURL_def sample_platform_def sample_URL_new_def)

section \<open>Properties of the HTTP helpers\<close>

lemma handleResponse_ok: "ok response \<Longrightarrow> handleResponse response = Inr ()"
  by (simp add: handleResponse_def)

lemma new_HTTPError_fields:
  "new_HTTPError m st stt u = Inr h \<Longrightarrow>
   err_status h = st \<and> err_statusText h = stt \<and> err_url h = u"
  by (auto simp: new_HTTPError_def split: sum.splits if_splits)

lemma handleResponse_thrown:
  assumes "handleResponse response = Inl t"
  shows "\<not> ok response \<and>
         ((\<exists>h. t = ThrownHTTPError h \<and> err_status h = res_status response \<and>
               err_statusText h = res_statusText response \<and> err_url h = res_url response) \<or>
          (\<exists>e. t = ThrownPlatform e))"
proof -
  from assms have nok: "\<not> ok response"
    by (auto simp: handleResponse_def split: if_splits)
  with assms show ?thesis
    by (auto simp: handleResponse_def Let_def split: sum.splits dest: new_HTTPError_fields)
qed

lemma handleResponse_not_ok:
  assumes "\<not> ok response"
  shows "(\<exists>m. handleResponse response =
            Inl (ThrownHTTPError \<lparr>err_message = m, err_status = res_status response,
                   err_statusText = res_statusText response, err_url = res_url response\<rparr>)) \<or>
         (\<exists>e. handleResponse response = Inl (ThrownPlatform e))"
  using assms
  by (auto simp: handleResponse_def Let_def new_HTTPError_def split: sum.splits if_splits)

lemma fetch_calls_log_error [simp]: "fetch_calls (log_error tag args w) = fetch_calls w"
  by (simp add: log_error_def)

lemma fetch_calls_fetchJSON_catch [simp]:
  "fetch_calls (snd (fetchJSON_catch url t w)) = fetch_calls w"
  by (simp add: fetchJSON_catch_def Let_def split: thrown.splits sum.splits)

lemma fetch_calls_fetchJSON:
  "fetch_calls (snd (fetchJSON p url options w)) = fetch_calls w @ [(url, fetchJSON_init options)]"
  by (simp add: fetchJSON_def Let_def call_fetch_def split: sum.splits)


lemma fetchJSON_of_thrown_in_try:
  assumes "thrown_in_try p url (fetchJSON_init options) x"
  shows "fetchJSON p url options w =
           fetchJSON_catch url x (call_fetch url (fetchJSON_init options) w)"
  using assms
  by (auto simp: thrown_in_try_def fetchJSON_def Let_def split: sum.splits if_splits)


text \<open>
  A caught value whose message cannot be read (\<^verbatim>\<open>null\<close> or \<^verbatim>\<open>undefined\<close>, or a message
  with no string form): it is logged, and the TypeError of \<^verbatim>\<open>error.message\<close> is what the
  caller gets.
\<close>

lemma fetchJSON_unreadable_message:
  assumes "thrown_in_try p url (fetchJSON_init options) x"
    and "\<forall>h. x \<noteq> ThrownHTTPError h"
    and "thrown_message x = Inl e"
  shows "fetchJSON p url options w =
           (Inl (ThrownPlatform e),
            log_error ''[AckerJS HTTP] Fetch error:'' [ArgThrown x]
              (call_fetch url (fetchJSON_init options) w))"
proof -
  from assms(1) have "fetchJSON p url options w =
      fetchJSON_catch url x (call_fetch url (fetchJSON_init options) w)"
    by (rule fetchJSON_of_thrown_in_try)
  with assms(2,3) show ?thesis
    by (cases x) (simp_all add: fetchJSON_catch_def Let_def)
qed




text \<open>
  C3. The documentation of \<open>handleResponse\<close> promises an \<open>HTTPError\<close> for every response
  that is not ok. The message read from a JSON error body is converted to a string by the
  \<^verbatim>\<open>Error\<close> constructor, outside the \<^verbatim>\<open>try\<close> block: for the body
  \<^verbatim>\<open>{"message": {"toString": 1}}\<close> the conversion throws, \<open>handleResponse\<close> leaves with a
  TypeError, and \<open>fetchJSON\<close> reports a plain \<^verbatim>\<open>Error\<close> without status, status text or
  URL fields.
\<close>

theorem handleResponse_unprintable_message:
  "\<not> ok sample_odd_error_response \<and>
   handleResponse sample_odd_error_response =
     Inl (ThrownPlatform
            (PlatformError ''TypeError'' ''Cannot convert object to primitive value'')) \<and>
   fst (fetchJSON sample_platform ''https://api.example.com/user/3'' None world0) =
     Inl (ThrownError
       ''Failed to fetch from https://api.example.com/user/3: Cannot convert object to primitive value'')"
proof -
  have hr: "handleResponse sample_odd_error_response =
     Inl (ThrownPlatform
            (PlatformError ''TypeError'' ''Cannot convert object to primitive value''))"
    by (simp add: handleResponse_def sample_odd_error_response_def read_error_message_def
        new_HTTPError_def Let_def)
  have f: "fetch sample_platform ''https://api.example.com/user/3'' (fetchJSON_init None) =
      Inr sample_odd_error_response"
    by (simp add: sample_platform_def sample_fetch_def)
  have "fst (fetchJSON sample_platform ''https://api.example.com/user/3'' None world0) =
     Inl (ThrownError
       ''Failed to fetch from https://api.example.com/user/3: Cannot convert object to primitive value'')"
    by (simp add: fetchJSON_def Let_def f hr fetchJSON_catch_def)
  moreover have "\<not> ok sample_odd_error_response"
    by (simp add: sample_odd_error_response_def)
  ultimately show ?thesis using hr by simp
qed

lemma invokes_fetch_once_fetchJSON:
  "invokes_fetch_once url w (fetchJSON p url options w)"
  by (simp add: invokes_fetch_once_def fetch_calls_fetchJSON)

text \<open>
  C7, as the code has it. Every call of \<open>fetchJSON\<close>, \<open>get\<close>, \<open>deleteJSON\<close>, \<open>del\<close> and
  of their \<open>createFetch\<close> forms invokes \<^verbatim>\<open>fetch\<close> exactly once: there is no retry. A
  wrapper that sends data (\<open>postJSON\<close>, \<open>putJSON\<close>, \<open>patchJSON\<close>, \<open>post\<close>, \<open>put\<close>,
  \<open>patch\<close> and their \<open>createFetch\<close> forms) invokes \<^verbatim>\<open>fetch\<close> exactly once when
  \<^verbatim>\<open>JSON.stringify(data)\<close> returns; when it throws, the exception leaves the wrapper
  before any request is made and the world is unchanged.
\<close>

theorem fetch_invoked_once:
  "invokes_fetch_once url w (fetchJSON p url options w) \<and>
   invokes_fetch_once url w (get p url options w) \<and>
   invokes_fetch_once url w (deleteJSON p url options w) \<and>
   invokes_fetch_once url w (del p url options w) \<and>
   invokes_fetch_once (mergeURL baseURL url) w
     (cf_fetchJSON (createFetch p baseURL defaultOptions) url options w) \<and>
   invokes_fetch_once (mergeURL baseURL url) w
     (cf_get (createFetch p baseURL defaultOptions) url options w) \<and>
   invokes_fetch_once (mergeURL baseURL url) w
     (cf_delete (createFetch p baseURL defaultOptions) url options w) \<and>
   (JSON_stringify p data = Inr text \<longrightarrow>
      invokes_fetch_once url w (postJSON p url data options w) \<and>
      invokes_fetch_once url w (putJSON p url data options w) \<and>
      invokes_fetch_once url w (patchJSON p url data options w) \<and>
      invokes_fetch_once url w (post p url data options w) \<and>
      invokes_fetch_once url w (put p url data options w) \<and>
      invokes_fetch_once url w (patch p url data options w) \<and>
      invokes_fetch_once (mergeURL baseURL url) w
        (cf_post (createFetch p baseURL defaultOptions) url data options w) \<and>
      invokes_fetch_once (mergeURL baseURL url) w
        (cf_put (createFetch p baseURL defaultOptions) url data options w) \<and>
      invokes_fetch_once (mergeURL baseURL url) w
        (cf_patch (createFetch p baseURL defaultOptions) url data options w)) \<and>
   (JSON_stringify p data = Inl e \<longrightarrow>
      postJSON p url data options w = (Inl (ThrownPlatform e), w) \<and>
      putJSON p url data options w = (Inl (ThrownPlatform e), w) \<and>
      patchJSON p url data options w = (Inl (ThrownPlatform e), w) \<and>
      post p url data options w = (Inl (ThrownPlatform e), w) \<and>
      put p url data options w = (Inl (ThrownPlatform e), w) \<and>
      patch p url data options w = (Inl (ThrownPlatform e), w) \<and>
      cf_post (createFetch p baseURL defaultOptions) url data options w =
        (Inl (ThrownPlatform e), w) \<and>
      cf_put (createFetch p baseURL defaultOptions) url data options w =
        (Inl (ThrownPlatform e), w) \<and>
      cf_patch (createFetch p baseURL defaultOptions) url data options w =
        (Inl (ThrownPlatform e), w))"
  by (simp add: invokes_fetch_once_fetchJSON get_def deleteJSON_def del_def createFetch_def
      postJSON_def putJSON_def patchJSON_def post_def put_def patch_def)

theorem fetch_invoked_once_witness:
  "JSON_stringify sample_platform SampleUser = Inr (Some ''{\"name\":\"John\"}'') \<and>
   JSON_stringify sample_platform SampleCyclic =
     Inl (PlatformError ''TypeError'' ''Converting circular structure to JSON'') \<and>
   invokes_fetch_once ''https://api.example.com/user/1'' world0
     (postJSON sample_platform ''https://api.example.com/user/1'' SampleUser None world0) \<and>
   length (fetch_calls (snd
     (postJSON sample_platform ''https://api.example.com/user/1'' SampleUser None world0))) = 1 \<and>
   postJSON sample_platform ''https://api.example.com/user/1'' SampleCyclic None world0 =
     (Inl (ThrownPlatform
        (PlatformError ''TypeError'' ''Converting circular structure to JSON'')), world0)"
proof -
  have ok: "JSON_stringify sample_platform SampleUser = Inr (Some ''{\"name\":\"John\"}'')"
    by (simp add: sample_platform_def sample_stringify_def)
  have bad: "JSON_stringify sample_platform SampleCyclic =
     Inl (PlatformError ''TypeError'' ''Converting circular structure to JSON'')"
    by (simp add: sample_platform_def sample_stringify_def)
  have once: "invokes_fetch_once ''https://api.example.com/user/1'' world0
     (postJSON sample_platform ''https://api.example.com/user/1'' SampleUser None world0)"
    using fetch_invoked_once [of "''https://api.example.com/user/1''" world0 sample_platform
        None "''''" None SampleUser "Some ''{\"name\":\"John\"}''"] ok
    by simp
  have thrown: "postJSON sample_platform ''https://api.example.com/user/1'' SampleCyclic None world0 =
     (Inl (ThrownPlatform
        (PlatformError ''TypeError'' ''Converting circular structure to JSON'')), world0)"
    using fetch_invoked_once [of "''https://api.example.com/user/1''" world0 sample_platform
        None "''''" None SampleCyclic _
        "PlatformError ''TypeError'' ''Converting circular structure to JSON''"] bad
    by simp
  from once have "length (fetch_calls (snd
     (postJSON sample_platform ''https://api.example.com/user/1'' SampleUser None world0))) = 1"
    by (simp add: invokes_fetch_once_def world0_def)
  with ok bad once thrown show ?thesis by simp
qed

text \<open>
  \<open>postJSON\<close> on data that contains itself: \<^verbatim>\<open>fetch\<close> is not invoked at all.
\<close>

theorem postJSON_cyclic_no_fetch:
  "fetch_calls (snd
     (postJSON sample_platform ''https://api.example.com/user/1'' SampleCyclic None world0)) = [] \<and>
   \<not> invokes_fetch_once ''https://api.example.com/user/1'' world0
     (postJSON sample_platform ''https://api.example.com/user/1'' SampleCyclic None world0)"
  by (simp add: postJSON_def sample_platform_def sample_stringify_def world0_def
      invokes_fetch_once_def)

section \<open>Properties of the component helper\<close>

lemma render_calls_component_render:
  "render_calls (snd (component_render cls this)) = render_calls this @ [getProps this]"
  by (simp add: component_render_def Let_def split: sum.splits)

lemma component_registers:
  assumes "map_of registry tagName = None"
    and "map_of (fst (component define_error tagName render observed (registry, w))) tagName = Some cls"
  shows "cls = \<lparr>render_callback = render,
                observedAttributes = (case observed of None \<Rightarrow> [] | Some names \<Rightarrow> names)\<rparr>"
  using assms
  by (auto simp: component_def Let_def map_of_append split: if_splits option.splits)

text \<open>
  C8, as the code has it. For the class that \<open>component\<close> registers under a tag name,
  \<open>attributeChangedCallback\<close> runs the \<open>render\<close> method, which calls the render callback
  once with the current props, when the old and the new value differ, whatever the
  attribute name; when they are equal it does nothing.
\<close>

theorem attributeChangedCallback_renders_on_change:
  assumes "map_of registry tagName = None"
    and "map_of (fst (component define_error tagName render observed (registry, w))) tagName = Some cls"
  shows "render_callback cls = render \<and>
         (oldValue \<noteq> newValue \<longrightarrow>
            attributeChangedCallback cls name oldValue newValue this = component_render cls this \<and>
            render_calls (snd (attributeChangedCallback cls name oldValue newValue this)) =
              render_calls this @ [getProps this]) \<and>
         (oldValue = newValue \<longrightarrow>
            attributeChangedCallback cls name oldValue newValue this = (Inr (), this))"
  using component_registers [OF assms]
  by (simp add: attributeChangedCallback_def render_calls_component_render)

theorem attributeChangedCallback_renders_on_change_witness:
  "map_of ([] :: (string \<times> (string, unit) AckerComponent) list) ''user-card'' = None \<and>
   map_of (fst (component sample_define_error ''user-card'' sample_render (Some [''name''])
                  ([], world0))) ''user-card'' = Some sample_class \<and>
   render_callback sample_class = sample_render \<and>
   render_calls (snd (attributeChangedCallback sample_class ''name'' (Some ''Bob'') (Some ''Ann'')
                        sample_element)) = [[(''name'', ''Ann'')]] \<and>
   attributeChangedCallback sample_class ''name'' None None sample_element =
     (Inr (), sample_element)"
proof -
  have a: "map_of ([] :: (string \<times> (string, unit) AckerComponent) list) ''user-card'' = None"
    by simp
  have b: "map_of (fst (component sample_define_error ''user-card'' sample_render (Some [''name''])
                  ([], world0))) ''user-card'' = Some sample_class"
    by (simp add: component_def Let_def sample_define_error_def sample_class_def)
  have neq: "Some ''Bob'' \<noteq> Some ''Ann''" by simp
  from attributeChangedCallback_renders_on_change [OF a b, of "Some ''Bob''" "Some ''Ann''" "''name''" sample_element]
    neq
  have c: "render_callback sample_class = sample_render"
    and d: "render_calls (snd (attributeChangedCallback sample_class ''name'' (Some ''Bob'') (Some ''Ann'')
                        sample_element)) = render_calls sample_element @ [getProps sample_element]"
    by blast+
  from attributeChangedCallback_renders_on_change [OF a b, of None None "''name''" sample_element]
  have e: "attributeChangedCallback sample_class ''name'' None None sample_element =
     (Inr (), sample_element)"
    by simp
  have "render_calls sample_element @ [getProps sample_element] = [[(''name'', ''Ann'')]]"
    by (simp add: sample_element_def getProps_def set_member_def)
  with a b c d e show ?thesis by simp
qed

text \<open>
  An attribute set again to the value it has (\<^verbatim>\<open>setAttribute('name', 'Ann')\<close> on the
  sample instance): the callback is delivered with equal values, and nothing is rendered.
\<close>

theorem attributeChangedCallback_same_value_no_render:
  "attributeChangedCallback sample_class ''name'' (Some ''Ann'') (Some ''Ann'') sample_element =
     (Inr (), sample_element) \<and>
   render_calls (snd (attributeChangedCallback sample_class ''name'' (Some ''Ann'') (Some ''Ann'')
                        sample_element)) = []"
  by (simp add: attributeChangedCallback_def sample_element_def)

section \<open>Properties of buildURL\<close>

lemma append_each_iff:
  "append_each key vs sp = Inr sp' \<longleftrightarrow>
   (\<exists>added. sp' = sp @ added \<and>
      map (\<lambda>(k, s). (k, Inr s)) added = map (\<lambda>v. (key, js_String v)) vs)"
proof (induction vs arbitrary: sp)
  case Nil
  then show ?case by auto
next
  case (Cons v vs)
  show ?case
  proof (cases "js_String v")
    case (Inl e)
    then show ?thesis by (auto simp: map_eq_Cons_conv)
  next
    case (Inr s)
    then show ?thesis
      by (auto simp: Cons.IH map_eq_Cons_conv)
  qed
qed


lemma append_entry_iff:
  "append_entry key val sp = Inr sp' \<longleftrightarrow>
   (\<exists>added. sp' = sp @ added \<and>
      map (\<lambda>(k, s). (k, Inr s)) added =
        map (\<lambda>v. (key, js_String v)) (values_to_append val))"
proof (cases val)
  case (JArr vs)
  then show ?thesis
    by (simp add: append_entry_def values_to_append_def append_each_iff)
qed (auto simp: append_entry_def values_to_append_def map_eq_Cons_conv split: sum.splits)

lemma append_entries_iff:
  "append_entries params sp = Inr sp' \<longleftrightarrow>
   (\<exists>added. sp' = sp @ added \<and>
      map (\<lambda>(k, s). (k, Inr s)) added =
        map (\<lambda>(k, v). (k, js_String v)) (requested_parameters params))"
proof (induction params arbitrary: sp)
  case Nil
  then show ?case by (auto simp: requested_parameters_def)
next
  case (Cons entry rest)
  obtain key val where entry: "entry = (key, val)" by (cases entry)
  have req: "map (\<lambda>(k, v). (k, js_String v)) (requested_parameters (entry # rest)) =
      map (\<lambda>v. (key, js_String v)) (values_to_append val) @
      map (\<lambda>(k, v). (k, js_String v)) (requested_parameters rest)"
    by (simp add: requested_parameters_def entry comp_def)
  show ?case
  proof
    assume "append_entries (entry # rest) sp = Inr sp'"
    then obtain sp1 where 1: "append_entry key val sp = Inr sp1"
      and 2: "append_entries rest sp1 = Inr sp'"
      by (auto simp: entry split: sum.splits)
    from 1 obtain a1 where a1: "sp1 = sp @ a1"
      "map (\<lambda>(k, s). (k, Inr s)) a1 = map (\<lambda>v. (key, js_String v)) (values_to_append val)"
      by (auto simp: append_entry_iff)
    from 2 obtain a2 where a2: "sp' = sp1 @ a2"
      "map (\<lambda>(k, s). (k, Inr s)) a2 = map (\<lambda>(k, v). (k, js_String v)) (requested_parameters rest)"
      by (auto simp: Cons.IH)
    from a1 a2 have "sp' = sp @ (a1 @ a2) \<and>
      map (\<lambda>(k, s). (k, Inr s)) (a1 @ a2) =
        map (\<lambda>(k, v). (k, js_String v)) (requested_parameters (entry # rest))"
      by (simp add: req)
    then show "\<exists>added. sp' = sp @ added \<and>
      map (\<lambda>(k, s). (k, Inr s)) added =
        map (\<lambda>(k, v). (k, js_String v)) (requested_parameters (entry # rest))"
      by blast
  next
    assume "\<exists>added. sp' = sp @ added \<and>
      map (\<lambda>(k, s). (k, Inr s)) added =
        map (\<lambda>(k, v). (k, js_String v)) (requested_parameters (entry # rest))"
    then obtain added where added: "sp' = sp @ added"
      "map (\<lambda>(k, s). (k, Inr s)) added =
         map (\<lambda>v. (key, js_String v)) (values_to_append val) @
         map (\<lambda>(k, v). (k, js_String v)) (requested_parameters rest)"
      by (auto simp: req)
    from added(2) obtain a1 a2 where split: "added = a1 @ a2"
      "map (\<lambda>(k, s). (k, Inr s)) a1 = map (\<lambda>v. (key, js_String v)) (values_to_append val)"
      "map (\<lambda>(k, s). (k, Inr s)) a2 = map (\<lambda>(k, v). (k, js_String v)) (requested_parameters rest)"
      by (auto simp: map_eq_append_conv)
    from split(2) have 1: "append_entry key val sp = Inr (sp @ a1)"
      by (auto simp: append_entry_iff)
    from added(1) split(1) have "sp' = (sp @ a1) @ a2"
      by simp
    with split(3) have 2: "append_entries rest (sp @ a1) = Inr sp'"
      using Cons.IH [of "sp @ a1"] by blast
    from 1 2 show "append_entries (entry # rest) sp = Inr sp'"
      by (simp add: entry)
  qed
qed

text \<open>
  C10, as the code has it. \<open>buildURL\<close> returns a URL text exactly when the base URL
  parses and every value to add converts to a string; the text is then that of the base
  URL with its own query parameters followed by the added ones. The added parameters
  are, in the order of the entries: nothing for an entry whose value is \<^verbatim>\<open>null\<close> or
  \<^verbatim>\<open>undefined\<close>, one parameter per element under the same key for an array-valued
  entry, and one parameter for any other entry, each value in its string form.
\<close>

theorem buildURL_query_parameters:
  "buildURL p baseURL params = Inr s \<longleftrightarrow>
   (\<exists>url added.
      URL_new p baseURL = Inr url \<and>
      map (\<lambda>(k, t). (k, Inr t)) added =
        map (\<lambda>(k, v). (k, js_String v)) (requested_parameters params) \<and>
      s = URL_toString p (url\<lparr>searchParams := searchParams url @ added\<rparr>))"
  (is "?lhs \<longleftrightarrow> ?rhs")
proof
  assume ?lhs
  then obtain url sp where url: "URL_new p baseURL = Inr url"
    and sp: "append_entries params (searchParams url) = Inr sp"
    and s: "s = URL_toString p (url\<lparr>searchParams := sp\<rparr>)"
    by (auto simp: buildURL_def buildURL_object_def split: sum.splits)
  from sp obtain added where "sp = searchParams url @ added"
    "map (\<lambda>(k, t). (k, Inr t)) added =
       map (\<lambda>(k, v). (k, js_String v)) (requested_parameters params)"
    unfolding append_entries_iff by blast
  with url s show ?rhs by blast
next
  assume ?rhs
  then obtain url added where url: "URL_new p baseURL = Inr url"
    and added: "map (\<lambda>(k, t). (k, Inr t)) added =
       map (\<lambda>(k, v). (k, js_String v)) (requested_parameters params)"
    and s: "s = URL_toString p (url\<lparr>searchParams := searchParams url @ added\<rparr>)"
    by blast
  from added have "append_entries params (searchParams url) = Inr (searchParams url @ added)"
    unfolding append_entries_iff by blast
  with url s show ?lhs
    by (simp add: buildURL_def buildURL_object_def)
qed


theorem buildURL_query_parameters_witness:
  "buildURL sample_platform ''https://api.example.com/search''
     [(''q'', JStr ''test''), (''limit'', JNum 10), (''skip'', JNull), (''page'', JUndefined),
      (''tags'', JArr [JStr ''a'', JStr ''b''])] =
   Inr ''https://api.example.com/search?q=test&limit=10&tags=a&tags=b''"
proof -
  let ?params = "[(''q'', JStr ''test''), (''limit'', JNum 10), (''skip'', JNull),
      (''page'', JUndefined), (''tags'', JArr [JStr ''a'', JStr ''b''])]"
  let ?url = "\<lparr>url_base = ''https://api.example.com/search'', searchParams = [], url_hash = []\<rparr>"
  let ?added = "[(''q'', ''test''), (''limit'', ''10''), (''tags'', ''a''), (''tags'', ''b'')]"
  have digits: "nat_digits 10 = ''10''"
    by (simp add: nat_digits.simps digit_char_def)
  have url: "URL_new sample_platform ''https://api.example.com/search'' = Inr ?url"
    by (simp add: sample_platform_def sample_URL_new_def)
  have req: "map (\<lambda>(k, t). (k, Inr t)) ?added =
      map (\<lambda>(k, v). (k, js_String v)) (requested_parameters ?params)"
    by (simp add: requested_parameters_def values_to_append_def int_digits_def digits)
  have printed: "''https://api.example.com/search?q=test&limit=10&tags=a&tags=b'' =
      URL_toString sample_platform (?url\<lparr>searchParams := searchParams ?url @ ?added\<rparr>)"
    by (simp add: sample_platform_def sample_URL_toString_def)
  from url req printed have "\<exists>url added.
      URL_new sample_platform ''https://api.example.com/search'' = Inr url \<and>
      map (\<lambda>(k, t). (k, Inr t)) added =
        map (\<lambda>(k, v). (k, js_String v)) (requested_parameters ?params) \<and>
      ''https://api.example.com/search?q=test&limit=10&tags=a&tags=b'' =
        URL_toString sample_platform (url\<lparr>searchParams := searchParams url @ added\<rparr>)"
    by blast
  then show ?thesis
    by (simp only: buildURL_query_parameters)
qed

text \<open>
  A \<^verbatim>\<open>null\<close> inside an array-valued entry is not left out: it is added as the text
  \<open>null\<close>.
\<close>

theorem buildURL_null_in_array:
  "requested_parameters [(''tags'', JArr [JNull])] = [(''tags'', JNull)] \<and>
   buildURL sample_platform ''https://api.example.com/search'' [(''tags'', JArr [JNull])] =
     Inr ''https://api.example.com/search?tags=null''"
  by (simp add: requested_parameters_def values_to_append_def buildURL_def buildURL_object_def
      append_entry_def sample_platform_def sample_URL_new_def sample_URL_toString_def)

end
